theory Spec2Isabelle
  imports Complex_Main "HOL-Library.Sublist"
begin

section \<open>Python and NumPy primitives used by the notebook\<close>

text \<open>
  The notebook \<open>7.5 Deep Learning methods for object detection\<close> consists of code cells
  that read and update global variables. Floating-point numbers are modelled by the
  reals they denote: the notebook only compares them, multiplies them by the image
  size and truncates them, and no claim below depends on rounding (NaN and infinities
  are left out).
\<close>

datatype error = FileNotFoundError | IndexError

text \<open>
  \<open>s.split(sep)\<close> for a separator of one character: the pieces between the separators,
  always one more piece than there are separators in \<open>s\<close>. (The result is never the
  empty list, so the first branch of the \<open>case\<close> is never taken.)
\<close>

fun str_split :: "char \<Rightarrow> string \<Rightarrow> string list" where
  "str_split sep [] = [[]]"
| "str_split sep (c # cs) =
     (if c = sep then [] # str_split sep cs
      else (case str_split sep cs of
              [] \<Rightarrow> [[c]]
            | p # ps \<Rightarrow> (c # p) # ps))"

text \<open>\<open>int(x)\<close> on a float truncates towards zero.\<close>

definition py_int :: "real \<Rightarrow> int" where
  "py_int x = (if 0 \<le> x then \<lfloor>x\<rfloor> else \<lceil>x\<rceil>)"

text \<open>
  \<open>xs[i]\<close> on a Python list, and on the first axis of a NumPy array, for an integer
  \<open>i\<close>: an index from \<open>-len(xs)\<close> up to \<open>-1\<close> counts from the end, and an index outside
  \<open>-len(xs) .. len(xs) - 1\<close> raises \<open>IndexError\<close>.
\<close>

definition getitem :: "'a list \<Rightarrow> int \<Rightarrow> error + 'a" where
  "getitem xs i =
     (if 0 \<le> i \<and> i < int (length xs) then Inr (xs ! nat i)
      else if i < 0 \<and> - int (length xs) \<le> i then Inr (xs ! nat (int (length xs) + i))
      else Inl IndexError)"

text \<open>Sequencing of statements that may raise: the first exception ends the block.\<close>

definition raising :: "error + 'a \<Rightarrow> ('a \<Rightarrow> error + 'b) \<Rightarrow> error + 'b" where
  "raising r k = (case r of Inl e \<Rightarrow> Inl e | Inr x \<Rightarrow> k x)"

text \<open>
  NumPy's global random generator is the stream of the raw samples it will still
  produce (each of them in \<open>[0, 1)\<close>, by the library's contract).
  \<open>np.random.uniform(low, high, size=(n, m))\<close> fills an \<open>n\<close> by \<open>m\<close> array in row-major
  order with \<open>low + (high - low) * sample\<close> and leaves the generator \<open>n * m\<close> samples
  further.
\<close>

definition uniform ::
  "real \<Rightarrow> real \<Rightarrow> nat \<times> nat \<Rightarrow> (nat \<Rightarrow> real) \<Rightarrow> real list list \<times> (nat \<Rightarrow> real)" where
  "uniform low high shape g =
     (map (\<lambda>i. map (\<lambda>j. low + (high - low) * g (i * snd shape + j)) [0..<snd shape])
          [0..<fst shape],
      \<lambda>k. g (fst shape * snd shape + k))"

section \<open>The notebook's state\<close>

text \<open>
  OpenCV's drawing functions are outside the repository. A call is recorded as a value
  of \<open>draw_call\<close>; what a call does to the pixels of an array is a parameter
  \<open>cv2 :: draw_call \<Rightarrow> 'img \<Rightarrow> 'img\<close> of the model, and drawing is assumed not to raise.
\<close>

datatype font = FONT_HERSHEY_SIMPLEX

datatype draw_call =
    Rectangle "int \<times> int" "int \<times> int" "real list" int
  | PutText string "int \<times> int" font real "real list" int

text \<open>
  Image arrays live in \<open>memory\<close> and variables hold their addresses (positions in
  \<open>memory\<close>), because \<open>cv2.rectangle\<close> and \<open>cv2.putText\<close> modify the array they are
  given in place. \<open>image_var\<close> is the notebook's variable \<open>image\<close>, and \<open>output_slice\<close> is
  \<open>output[0, 0, :, :]\<close>, the rows of the network's result, one row per detection.
  \<open>cv2_calls\<close> is the history of drawing calls, each with the address it drew on.
\<close>

record 'img notebook =
  np_random :: "nat \<Rightarrow> real"
  memory :: "'img list"
  class_names :: "string list"
  COLORS :: "real list list"
  image_var :: nat
  image_height :: int
  image_width :: int
  output_slice :: "real list list"
  image_copy :: nat
  cv2_calls :: "(nat \<times> draw_call) list"

section \<open>Loading the class names\<close>

definition classes_path :: string where
  "classes_path = ''./data/object_detection_classes_coco.txt''"

text \<open>
  The cell that loads the registry (\<open>load_categories\<close> in the specification). \<open>fs\<close> maps
  a path to the text that \<open>f.read()\<close> returns for it, and a path outside its domain does
  not exist: \<open>open\<close> raises \<open>FileNotFoundError\<close>.
\<close>

definition load_categories ::
  "(string \<rightharpoonup> string) \<Rightarrow> 'img notebook \<Rightarrow> error + 'img notebook" where
  "load_categories fs s =
     (case fs classes_path of
        None \<Rightarrow> Inl FileNotFoundError
      | Some content \<Rightarrow>
          (let names = str_split (CHR 0x0A) content;
               drawn = uniform 0 255 (length names, 3) (np_random s)
           in Inr (s\<lparr>class_names := names, COLORS := fst drawn, np_random := snd drawn\<rparr>)))"

section \<open>Rendering the detections\<close>

text \<open>
  A drawing call changes the array at the given address in place and is added to the
  history.
\<close>

definition draw ::
  "(draw_call \<Rightarrow> 'img \<Rightarrow> 'img) \<Rightarrow> nat \<Rightarrow> draw_call \<Rightarrow> 'img notebook \<Rightarrow> 'img notebook" where
  "draw cv2 a c s =
     s\<lparr>memory := (memory s)[a := cv2 c (memory s ! a)], cv2_calls := cv2_calls s @ [(a, c)]\<rparr>"

text \<open>
  Modelled from the spec: the blanks (\<open>None\<close>) that the notebook leaves in the body of
  the loop for the student to fill in. They are: the confidence, which is element 2 of
  the row (the \<open>score\<close> of the notebook's
  \<open>prediction=[not_used,category,score,bbox_x_ul,bbox_y_ul,bbox_x_br,bbox_y_br]\<close>); the
  threshold, which the caller supplies; the box corners, which are elements 3 to 6 of
  the row multiplied by the image width (x) and the image height (y); the corners given
  to \<open>cv2.rectangle\<close>, which are the upper left and the bottom right corner, each
  coordinate under \<open>int\<close>; and the text, which is the class name, a colon and a space,
  and the confidence formatted to a fixed precision by \<open>fmt\<close>.

  Everything else in \<open>detection_step\<close>, the body of the loop for one row
  \<open>detection\<close>, is the notebook's: the order of the statements, the strict comparison,
  the two lookups by \<open>int(class_id)\<close>, the thickness of the rectangle, and the position,
  the font, the scale and the thickness of the text. The variables of the loop
  (\<open>detection\<close>, \<open>confidence\<close>, \<open>class_id\<close> and so on) are not part of the state.
\<close>

definition detection_step ::
  "(draw_call \<Rightarrow> 'img \<Rightarrow> 'img) \<Rightarrow> (real \<Rightarrow> string) \<Rightarrow> real \<Rightarrow> real list \<Rightarrow>
     'img notebook \<Rightarrow> error + 'img notebook" where
  "detection_step cv2 fmt threshold detection s =
     raising (getitem detection 2) (\<lambda>confidence.
       if confidence > threshold then
         raising (getitem detection 1) (\<lambda>class_id.
         raising (getitem (class_names s) (py_int class_id - 1)) (\<lambda>class_name.
         raising (getitem (COLORS s) (py_int class_id)) (\<lambda>color.
         raising (getitem detection 3) (\<lambda>x_min_norm.
         raising (getitem detection 4) (\<lambda>y_min_norm.
         raising (getitem detection 5) (\<lambda>x_max_norm.
         raising (getitem detection 6) (\<lambda>y_max_norm.
           let box_x_ul = x_min_norm * real_of_int (image_width s);
               box_y_ul = y_min_norm * real_of_int (image_height s);
               box_x_br = x_max_norm * real_of_int (image_width s);
               box_y_br = y_max_norm * real_of_int (image_height s);
               s1 = draw cv2 (image_copy s)
                      (Rectangle (py_int box_x_ul, py_int box_y_ul)
                                 (py_int box_x_br, py_int box_y_br) color 2) s;
               text = class_name @ '': '' @ fmt confidence
           in Inr (draw cv2 (image_copy s1)
                     (PutText text (py_int (box_x_ul + 2), py_int (box_y_ul + 30))
                              FONT_HERSHEY_SIMPLEX 1 color 2) s1))))))))
       else Inr s)"

text \<open>
  The \<open>for\<close> loop: an exception ends it, and what was drawn before stays drawn. The
  result is the exception, if any, and the state the cell leaves.
\<close>

fun detection_loop ::
  "(draw_call \<Rightarrow> 'img \<Rightarrow> 'img) \<Rightarrow> (real \<Rightarrow> string) \<Rightarrow> real \<Rightarrow> real list list \<Rightarrow>
     'img notebook \<Rightarrow> error option \<times> 'img notebook" where
  "detection_loop cv2 fmt threshold [] s = (None, s)"
| "detection_loop cv2 fmt threshold (detection # rest) s =
     (case detection_step cv2 fmt threshold detection s of
        Inl e \<Rightarrow> (Some e, s)
      | Inr s' \<Rightarrow> detection_loop cv2 fmt threshold rest s')"

text \<open>
  The rendering cell (\<open>render_detections\<close> in the specification):
  \<open>image_copy = image.copy()\<close> allocates a new array with the pixels of \<open>image\<close>, then
  the loop runs over the rows of the output.
\<close>

definition render_detections ::
  "(draw_call \<Rightarrow> 'img \<Rightarrow> 'img) \<Rightarrow> (real \<Rightarrow> string) \<Rightarrow> real \<Rightarrow> 'img notebook \<Rightarrow>
     error option \<times> 'img notebook" where
  "render_detections cv2 fmt threshold s =
     detection_loop cv2 fmt threshold (output_slice s)
       (s\<lparr>memory := memory s @ [memory s ! image_var s], image_copy := length (memory s)\<rparr>)"

text \<open>The number of boxes in the history of drawing calls.\<close>

fun is_box :: "nat \<times> draw_call \<Rightarrow> bool" where
  "is_box (a, Rectangle p q col th) = True"
| "is_box (a, PutText txt p f sc col th) = False"

definition boxes_drawn :: "'img notebook \<Rightarrow> nat" where
  "boxes_drawn s = length (filter is_box (cv2_calls s))"

section \<open>The drawing calls of the loop, for the proofs\<close>

text \<open>
  The proofs below separate what the loop decides from what it draws.
  \<open>step_calls\<close> gives the drawing calls of one iteration as a function of the values
  the body reads, \<open>loop_calls\<close> those of the whole loop with the exception that ends
  it, and \<open>drawn_on\<close> performs a list of calls on one array. They are tied to
  \<open>detection_step\<close>, \<open>detection_loop\<close> and \<open>render_detections\<close> by the lemmas
  \<open>detection_step_calls\<close>, \<open>detection_loop_calls\<close> and \<open>render_detections_calls\<close>.
\<close>

definition step_calls ::
  "(real \<Rightarrow> string) \<Rightarrow> real \<Rightarrow> string list \<Rightarrow> real list list \<Rightarrow> int \<Rightarrow> int \<Rightarrow> real list \<Rightarrow>
     error + draw_call list" where
  "step_calls fmt threshold names colors W H detection =
     raising (getitem detection 2) (\<lambda>confidence.
       if confidence > threshold then
         raising (getitem detection 1) (\<lambda>class_id.
         raising (getitem names (py_int class_id - 1)) (\<lambda>class_name.
         raising (getitem colors (py_int class_id)) (\<lambda>color.
         raising (getitem detection 3) (\<lambda>x_min_norm.
         raising (getitem detection 4) (\<lambda>y_min_norm.
         raising (getitem detection 5) (\<lambda>x_max_norm.
         raising (getitem detection 6) (\<lambda>y_max_norm.
           Inr [Rectangle (py_int (x_min_norm * real_of_int W), py_int (y_min_norm * real_of_int H))
                          (py_int (x_max_norm * real_of_int W), py_int (y_max_norm * real_of_int H))
                          color 2,
                PutText (class_name @ '': '' @ fmt confidence)
                        (py_int (x_min_norm * real_of_int W + 2),
                         py_int (y_min_norm * real_of_int H + 30))
                        FONT_HERSHEY_SIMPLEX 1 color 2])))))))
       else Inr [])"

fun loop_calls ::
  "(real \<Rightarrow> string) \<Rightarrow> real \<Rightarrow> string list \<Rightarrow> real list list \<Rightarrow> int \<Rightarrow> int \<Rightarrow> real list list \<Rightarrow>
     error option \<times> draw_call list" where
  "loop_calls fmt threshold names colors W H [] = (None, [])"
| "loop_calls fmt threshold names colors W H (detection # rest) =
     (case step_calls fmt threshold names colors W H detection of
        Inl e \<Rightarrow> (Some e, [])
      | Inr cs \<Rightarrow> (fst (loop_calls fmt threshold names colors W H rest),
                  cs @ snd (loop_calls fmt threshold names colors W H rest)))"

definition drawn_on ::
  "(draw_call \<Rightarrow> 'img \<Rightarrow> 'img) \<Rightarrow> nat \<Rightarrow> draw_call list \<Rightarrow> 'img notebook \<Rightarrow> 'img notebook" where
  "drawn_on cv2 a cs s =
     s\<lparr>memory := (memory s)[a := fold cv2 cs (memory s ! a)],
       cv2_calls := cv2_calls s @ map (Pair a) cs\<rparr>"

section \<open>Concrete inputs\<close>

text \<open>
  A canvas that is the list of what was drawn on it stands for the pixel array where a
  theorem is instantiated, and \<open>sketch\<close> for OpenCV on that canvas. \<open>blank\<close> is a
  notebook with one empty 640 by 480 image and no registry. \<open>coco_names\<close> has the
  names that the notebook prints for the indices 40 to 60, and \<open>kitchen\<close> has them as
  its registry, with the detection that the notebook gives as its example.
  \<open>kitchen_copy\<close> is \<open>kitchen\<close> after \<open>image_copy = image.copy()\<close>, where the loop starts.
\<close>

definition sketch :: "draw_call \<Rightarrow> draw_call list \<Rightarrow> draw_call list" where
  "sketch c img = img @ [c]"

definition blank :: "draw_call list notebook" where
  "blank = \<lparr>np_random = (\<lambda>k. 1 / 2), memory = [[]], class_names = [], COLORS = [],
     image_var = 0, image_height = 480, image_width = 640, output_slice = [],
     image_copy = 0, cv2_calls = []\<rparr>"

definition coco_names :: "string list" where
  "coco_names = replicate 40 [] @
     [''skateboard'', ''surfboard'', ''tennis racket'', ''bottle'', ''plate'', ''wine glass'',
      ''cup'', ''fork'', ''knife'', ''spoon'', ''bowl'', ''banana'', ''apple'', ''sandwich'',
      ''orange'', ''broccoli'', ''carrot'', ''hot dog'', ''pizza'', ''donut'', ''cake'']"

definition kitchen :: "draw_call list notebook" where
  "kitchen = blank\<lparr>class_names := coco_names, COLORS := replicate 61 [0, 255, 0],
     output_slice := [[0, 52, 0.9821959, 0.3924626, 0.60919476, 0.85021377, 0.9348804]]\<rparr>"

definition kitchen_copy :: "draw_call list notebook" where
  "kitchen_copy = kitchen\<lparr>memory := [[], []], image_copy := 1\<rparr>"

section \<open>The loop in terms of its drawing calls\<close>

lemma drawn_on_Nil: "drawn_on cv2 a [] s = s"
  by (simp add: drawn_on_def)

lemma draw_drawn_on: "drawn_on cv2 a cs (draw cv2 a c s) = drawn_on cv2 a (c # cs) s"
proof (cases "a < length (memory s)")
  case True
  then show ?thesis by (simp add: drawn_on_def draw_def)
next
  case False
  then show ?thesis by (simp add: drawn_on_def draw_def list_update_beyond)
qed

lemma drawn_on_append:
  "drawn_on cv2 a cs' (drawn_on cv2 a cs s) = drawn_on cv2 a (cs @ cs') s"
proof (cases "a < length (memory s)")
  case True
  then show ?thesis by (simp add: drawn_on_def)
next
  case False
  then show ?thesis by (simp add: drawn_on_def list_update_beyond)
qed

lemma drawn_on_fields:
  "np_random (drawn_on cv2 a cs s) = np_random s"
  "class_names (drawn_on cv2 a cs s) = class_names s"
  "COLORS (drawn_on cv2 a cs s) = COLORS s"
  "image_var (drawn_on cv2 a cs s) = image_var s"
  "image_height (drawn_on cv2 a cs s) = image_height s"
  "image_width (drawn_on cv2 a cs s) = image_width s"
  "output_slice (drawn_on cv2 a cs s) = output_slice s"
  "image_copy (drawn_on cv2 a cs s) = image_copy s"
  by (simp_all add: drawn_on_def)

lemma detection_step_calls:
  "detection_step cv2 fmt t d s =
     (case step_calls fmt t (class_names s) (COLORS s) (image_width s) (image_height s) d of
        Inl e \<Rightarrow> Inl e
      | Inr cs \<Rightarrow> Inr (drawn_on cv2 (image_copy s) cs s))"
proof -
  have two: "draw cv2 (image_copy (draw cv2 (image_copy s) c1 s)) c2 (draw cv2 (image_copy s) c1 s)
               = drawn_on cv2 (image_copy s) [c1, c2] s" for c1 c2
  proof -
    have "image_copy (draw cv2 (image_copy s) c1 s) = image_copy s"
      by (simp add: draw_def)
    moreover have "draw cv2 (image_copy s) c2 (draw cv2 (image_copy s) c1 s)
                     = drawn_on cv2 (image_copy s) [] (draw cv2 (image_copy s) c2 (draw cv2 (image_copy s) c1 s))"
      by (simp add: drawn_on_Nil)
    ultimately show ?thesis
      by (simp add: draw_drawn_on)
  qed
  show ?thesis
    unfolding detection_step_def step_calls_def raising_def Let_def two
    by (simp add: drawn_on_Nil split: sum.split)
qed

lemma detection_loop_calls:
  "detection_loop cv2 fmt t ds s =
     (fst (loop_calls fmt t (class_names s) (COLORS s) (image_width s) (image_height s) ds),
      drawn_on cv2 (image_copy s)
        (snd (loop_calls fmt t (class_names s) (COLORS s) (image_width s) (image_height s) ds)) s)"
proof (induction ds arbitrary: s)
  case Nil
  show ?case by (simp add: drawn_on_Nil)
next
  case (Cons d ds)
  show ?case
    by (simp add: detection_step_calls Cons.IH drawn_on_fields drawn_on_append drawn_on_Nil
             split: sum.split)
qed

lemma render_detections_calls:
  "render_detections cv2 fmt t s =
     (fst (loop_calls fmt t (class_names s) (COLORS s) (image_width s) (image_height s) (output_slice s)),
      s\<lparr>memory := memory s @ [fold cv2 (snd (loop_calls fmt t (class_names s) (COLORS s)
                                   (image_width s) (image_height s) (output_slice s)))
                                 (memory s ! image_var s)],
        image_copy := length (memory s),
        cv2_calls := cv2_calls s @ map (Pair (length (memory s)))
                       (snd (loop_calls fmt t (class_names s) (COLORS s)
                                   (image_width s) (image_height s) (output_slice s)))\<rparr>)"
  by (simp add: render_detections_def detection_loop_calls drawn_on_def)

section \<open>The registry\<close>

lemma str_split_not_Nil: "str_split sep s \<noteq> []"
  by (induction s) (auto split: list.split)

text \<open>
  Claim C8 says that an empty file gives a registry of size zero. It does not:
  splitting the empty string at line breaks gives the list with one empty string, so
  the registry has one name.
\<close>

theorem load_empty_file_counterexample:
  "\<not> isl (load_categories (Map.empty(classes_path \<mapsto> [])) blank) \<and>
   class_names (projr (load_categories (Map.empty(classes_path \<mapsto> [])) blank)) = [[]] \<and>
   length (class_names (projr (load_categories (Map.empty(classes_path \<mapsto> [])) blank))) \<noteq> 0"
  by (simp add: load_categories_def Let_def)

text \<open>
  Claim C8, amended: loading the registry from an empty file is not an error and gives
  a registry of size one, whose only name is the empty string, with one colour.
\<close>

theorem load_empty_file:
  "fs classes_path = Some [] \<Longrightarrow>
     load_categories fs s =
       Inr (s\<lparr>class_names := [[]],
              COLORS := [[255 * np_random s 0, 255 * np_random s 1, 255 * np_random s 2]],
              np_random := \<lambda>k. np_random s (3 + k)\<rparr>)"
  by (simp add: load_categories_def uniform_def eval_nat_numeral)

theorem load_empty_file_witness:
  "(Map.empty(classes_path \<mapsto> [])) classes_path = Some [] \<and>
   class_names (projr (load_categories (Map.empty(classes_path \<mapsto> [])) blank)) = [[]] \<and>
   COLORS (projr (load_categories (Map.empty(classes_path \<mapsto> [])) blank))
     = [[255 / 2, 255 / 2, 255 / 2]]"
  using load_empty_file [of "Map.empty(classes_path \<mapsto> [])" blank]
  by (simp add: blank_def)

section \<open>One iteration of the loop\<close>

lemma getitem_numeral:
  "getitem xs (numeral k) = (if numeral k < length xs then Inr (xs ! numeral k) else Inl IndexError)"
  by (simp add: getitem_def)

lemma getitem_1:
  "getitem xs 1 = (if 1 < length xs then Inr (xs ! 1) else Inl IndexError)"
  by (simp add: getitem_def)

lemma step_calls_skip:
  "2 < length d \<Longrightarrow> d ! 2 \<le> t \<Longrightarrow> step_calls fmt t names colors W H d = Inr []"
  by (simp add: step_calls_def raising_def getitem_numeral)

lemma step_calls_pass:
  assumes "6 < length d" and "t < d ! 2"
    and "getitem names (py_int (d ! 1) - 1) = Inr name"
    and "getitem colors (py_int (d ! 1)) = Inr color"
  shows "step_calls fmt t names colors W H d =
     Inr [Rectangle (py_int (d ! 3 * real_of_int W), py_int (d ! 4 * real_of_int H))
                    (py_int (d ! 5 * real_of_int W), py_int (d ! 6 * real_of_int H)) color 2,
          PutText (name @ '': '' @ fmt (d ! 2))
                  (py_int (d ! 3 * real_of_int W + 2), py_int (d ! 4 * real_of_int H + 30))
                  FONT_HERSHEY_SIMPLEX 1 color 2]"
  using assms by (simp add: step_calls_def raising_def getitem_numeral getitem_1)

lemma step_calls_Inr:
  assumes "step_calls fmt t names colors W H d = Inr cs"
  shows "2 < length d \<and>
     (if t < d ! 2
      then 6 < length d \<and>
           (\<exists>name color. getitem names (py_int (d ! 1) - 1) = Inr name \<and>
              getitem colors (py_int (d ! 1)) = Inr color \<and>
              cs = [Rectangle (py_int (d ! 3 * real_of_int W), py_int (d ! 4 * real_of_int H))
                      (py_int (d ! 5 * real_of_int W), py_int (d ! 6 * real_of_int H)) color 2,
                    PutText (name @ '': '' @ fmt (d ! 2))
                      (py_int (d ! 3 * real_of_int W + 2), py_int (d ! 4 * real_of_int H + 30))
                      FONT_HERSHEY_SIMPLEX 1 color 2])
      else cs = [])"
proof -
  from assms have len: "2 < length d"
    by (simp add: step_calls_def raising_def getitem_numeral split: if_splits)
  show ?thesis
  proof (cases "t < d ! 2")
    case False
    with len assms show ?thesis
      by (simp add: step_calls_skip)
  next
    case True
    with len assms have six: "6 < length d"
      by (simp add: step_calls_def raising_def getitem_numeral getitem_1
               split: if_splits sum.splits)
    from True len six assms obtain name color
      where n: "getitem names (py_int (d ! 1) - 1) = Inr name"
        and c: "getitem colors (py_int (d ! 1)) = Inr color"
      by (auto simp add: step_calls_def raising_def getitem_numeral getitem_1
               split: sum.splits)
    from step_calls_pass [OF six True n c, of fmt W H] assms n c True len six
    show ?thesis by auto
  qed
qed

section \<open>The confidence threshold\<close>

text \<open>
  Claim C1: a detection is drawn only when its confidence is strictly greater than the
  threshold. At a confidence below or equal to the threshold the iteration raises
  nothing and leaves the state as it was; an iteration that changes the history of
  drawing calls had a confidence above the threshold; and an iteration that ends
  normally with a confidence above the threshold has drawn one box and one label on
  \<open>image_copy\<close>.
\<close>

theorem threshold_is_strict:
  assumes "2 < length detection"
  shows "(detection ! 2 \<le> threshold \<longrightarrow>
            detection_step cv2 fmt threshold detection s = Inr s)
       \<and> (detection ! 2 = threshold \<longrightarrow>
            detection_step cv2 fmt threshold detection s = Inr s)
       \<and> (\<forall>s'. detection_step cv2 fmt threshold detection s = Inr s' \<and>
                 cv2_calls s' \<noteq> cv2_calls s \<longrightarrow> threshold < detection ! 2)
       \<and> (\<forall>s'. detection_step cv2 fmt threshold detection s = Inr s' \<and>
                 threshold < detection ! 2 \<longrightarrow>
              (\<exists>p q col th txt org f sc col' th'.
                 cv2_calls s' = cv2_calls s @
                   [(image_copy s, Rectangle p q col th),
                    (image_copy s, PutText txt org f sc col' th')]))"
proof (intro conjI allI impI)
  assume "detection ! 2 \<le> threshold"
  with assms show "detection_step cv2 fmt threshold detection s = Inr s"
    by (simp add: detection_step_calls step_calls_skip drawn_on_Nil)
next
  assume "detection ! 2 = threshold"
  with assms show "detection_step cv2 fmt threshold detection s = Inr s"
    by (simp add: detection_step_calls step_calls_skip drawn_on_Nil)
next
  fix s'
  assume a: "detection_step cv2 fmt threshold detection s = Inr s' \<and>
             cv2_calls s' \<noteq> cv2_calls s"
  show "threshold < detection ! 2"
  proof (rule ccontr)
    assume "\<not> threshold < detection ! 2"
    with assms have "detection_step cv2 fmt threshold detection s = Inr s"
      by (simp add: detection_step_calls step_calls_skip drawn_on_Nil)
    with a show False by auto
  qed
next
  fix s'
  assume a: "detection_step cv2 fmt threshold detection s = Inr s' \<and>
             threshold < detection ! 2"
  then obtain cs where cs:
      "step_calls fmt threshold (class_names s) (COLORS s) (image_width s) (image_height s)
         detection = Inr cs"
    and s': "s' = drawn_on cv2 (image_copy s) cs s"
    by (auto simp add: detection_step_calls split: sum.splits)
  from step_calls_Inr [OF cs] a
  show "\<exists>p q col th txt org f sc col' th'.
          cv2_calls s' = cv2_calls s @
            [(image_copy s, Rectangle p q col th),
             (image_copy s, PutText txt org f sc col' th')]"
    by (auto simp add: s' drawn_on_def)
qed

theorem threshold_is_strict_witness:
  "2 < length [0, 52, 1 / 2, 1 / 4, 1 / 4, 3 / 4, 3 / 4 :: real] \<and>
   detection_step sketch (\<lambda>c. ''0.50'') (1 / 2) [0, 52, 1 / 2, 1 / 4, 1 / 4, 3 / 4, 3 / 4] kitchen_copy
     = Inr kitchen_copy \<and>
   cv2_calls (projr (detection_step sketch (\<lambda>c. ''0.50'') (49999 / 100000)
                       [0, 52, 1 / 2, 1 / 4, 1 / 4, 3 / 4, 3 / 4] kitchen_copy))
     = [(1, Rectangle (160, 120) (480, 360) [0, 255, 0] 2),
        (1, PutText ''banana: 0.50'' (162, 150) FONT_HERSHEY_SIMPLEX 1 [0, 255, 0] 2)]"
proof -
  have len: "2 < length [0, 52, 1 / 2, 1 / 4, 1 / 4, 3 / 4, 3 / 4 :: real]"
    by simp
  have skipped:
    "detection_step sketch (\<lambda>c. ''0.50'') (1 / 2) [0, 52, 1 / 2, 1 / 4, 1 / 4, 3 / 4, 3 / 4] kitchen_copy
       = Inr kitchen_copy"
    using threshold_is_strict [OF len, of "1 / 2" sketch "\<lambda>c. ''0.50''" kitchen_copy]
    by simp
  have drawn:
    "cv2_calls (projr (detection_step sketch (\<lambda>c. ''0.50'') (49999 / 100000)
                       [0, 52, 1 / 2, 1 / 4, 1 / 4, 3 / 4, 3 / 4] kitchen_copy))
     = [(1, Rectangle (160, 120) (480, 360) [0, 255, 0] 2),
        (1, PutText ''banana: 0.50'' (162, 150) FONT_HERSHEY_SIMPLEX 1 [0, 255, 0] 2)]"
    by (simp add: detection_step_def raising_def getitem_def py_int_def draw_def Let_def
          kitchen_copy_def kitchen_def blank_def coco_names_def nth_append)
  from len skipped drawn show ?thesis by simp
qed

section \<open>The whole loop\<close>

lemma loop_calls_none_above:
  "\<forall>d\<in>set ds. 2 < length d \<and> d ! 2 \<le> t \<Longrightarrow> loop_calls fmt t names colors W H ds = (None, [])"
  by (induction ds) (simp_all add: step_calls_skip)

lemma step_calls_raise_threshold:
  assumes "step_calls fmt t1 names colors W H d = Inr cs" and "t1 \<le> t2"
  shows "step_calls fmt t2 names colors W H d = Inr cs \<or>
         step_calls fmt t2 names colors W H d = Inr []"
proof (cases "t2 < d ! 2")
  case False
  from step_calls_Inr [OF assms(1)] have "2 < length d" by simp
  with False show ?thesis by (simp add: step_calls_skip)
next
  case True
  with assms(2) have t1: "t1 < d ! 2" by simp
  from step_calls_Inr [OF assms(1)] t1 obtain name color
    where six: "6 < length d"
      and n: "getitem names (py_int (d ! 1) - 1) = Inr name"
      and c: "getitem colors (py_int (d ! 1)) = Inr color"
    by auto
  from step_calls_pass [OF six t1 n c, of fmt W H] step_calls_pass [OF six True n c, of fmt W H]
    assms(1)
  show ?thesis by simp
qed

lemma loop_calls_raise_threshold:
  assumes "fst (loop_calls fmt t1 names colors W H ds) = None" and "t1 \<le> t2"
  shows "fst (loop_calls fmt t2 names colors W H ds) = None \<and>
         length (filter is_box (map (Pair a) (snd (loop_calls fmt t2 names colors W H ds))))
           \<le> length (filter is_box (map (Pair a) (snd (loop_calls fmt t1 names colors W H ds))))"
  using assms(1)
proof (induction ds)
  case Nil
  show ?case by simp
next
  case (Cons d ds)
  from Cons.prems obtain cs
    where cs: "step_calls fmt t1 names colors W H d = Inr cs"
      and rest: "fst (loop_calls fmt t1 names colors W H ds) = None"
    by (auto split: sum.splits)
  from step_calls_raise_threshold [OF cs assms(2)] Cons.IH [OF rest] cs
  show ?case by auto
qed

text \<open>
  Claim C7: when no row has a confidence above the threshold, and so also when there
  are no rows at all, the cell ends without an exception, makes no drawing call, and
  \<open>image_copy\<close> is a new array with the pixels of \<open>image\<close>.
\<close>

theorem nothing_above_threshold:
  assumes "\<forall>d\<in>set (output_slice s). 2 < length d \<and> d ! 2 \<le> threshold"
  shows "render_detections cv2 fmt threshold s =
           (None, s\<lparr>memory := memory s @ [memory s ! image_var s],
                    image_copy := length (memory s)\<rparr>)
       \<and> memory (snd (render_detections cv2 fmt threshold s))
            ! image_copy (snd (render_detections cv2 fmt threshold s))
           = memory s ! image_var s
       \<and> cv2_calls (snd (render_detections cv2 fmt threshold s)) = cv2_calls s"
  by (simp add: render_detections_calls loop_calls_none_above [OF assms])

theorem nothing_above_threshold_witness:
  "output_slice blank = [] \<and>
   render_detections sketch (\<lambda>c. ''0.98'') (1 / 2) blank
     = (None, blank\<lparr>memory := [[], []], image_copy := 1\<rparr>) \<and>
   output_slice kitchen
     = [[0, 52, 0.9821959, 0.3924626, 0.60919476, 0.85021377, 0.9348804]] \<and>
   (0.9821959 :: real) \<le> 0.99 \<and>
   fst (render_detections sketch (\<lambda>c. ''0.98'') 0.99 kitchen) = None \<and>
   memory (snd (render_detections sketch (\<lambda>c. ''0.98'') 0.99 kitchen)) = [[], []] \<and>
   image_copy (snd (render_detections sketch (\<lambda>c. ''0.98'') 0.99 kitchen)) = 1 \<and>
   cv2_calls (snd (render_detections sketch (\<lambda>c. ''0.98'') 0.99 kitchen)) = []"
proof -
  have e: "\<forall>d\<in>set (output_slice blank). 2 < length d \<and> d ! 2 \<le> 1 / 2"
    by (simp add: blank_def)
  have k: "\<forall>d\<in>set (output_slice kitchen). 2 < length d \<and> d ! 2 \<le> 0.99"
    by (simp add: kitchen_def blank_def)
  show ?thesis
    using nothing_above_threshold [OF e, of sketch "\<lambda>c. ''0.98''"]
          nothing_above_threshold [OF k, of sketch "\<lambda>c. ''0.98''"]
    by (simp add: kitchen_def blank_def)
qed

section \<open>The input image and the copy\<close>

text \<open>
  Claim C4: the rendering cell never changes the pixels of its input image, whether it
  ends normally or with an exception. The variable \<open>image\<close> still holds the same
  array with the same pixels, every array that existed before is unchanged,
  \<open>image_copy\<close> is a new array different from \<open>image\<close>, and every drawing call of the
  cell is made on \<open>image_copy\<close>.
\<close>

theorem input_image_untouched:
  assumes "image_var s < length (memory s)"
  shows "image_var (snd (render_detections cv2 fmt threshold s)) = image_var s
       \<and> memory (snd (render_detections cv2 fmt threshold s)) ! image_var s
           = memory s ! image_var s
       \<and> take (length (memory s)) (memory (snd (render_detections cv2 fmt threshold s)))
           = memory s
       \<and> image_copy (snd (render_detections cv2 fmt threshold s)) = length (memory s)
       \<and> image_copy (snd (render_detections cv2 fmt threshold s)) \<noteq> image_var s
       \<and> take (length (cv2_calls s)) (cv2_calls (snd (render_detections cv2 fmt threshold s)))
           = cv2_calls s
       \<and> (\<forall>c\<in>set (drop (length (cv2_calls s))
                      (cv2_calls (snd (render_detections cv2 fmt threshold s)))).
             fst c = image_copy (snd (render_detections cv2 fmt threshold s)))"
  using assms by (auto simp add: render_detections_calls nth_append)

theorem input_image_untouched_witness:
  "image_var kitchen < length (memory kitchen) \<and>
   memory kitchen = [[]] \<and>
   memory (snd (render_detections sketch (\<lambda>c. ''0.98'') (1 / 2) kitchen))
     = [[],
        [Rectangle (251, 292) (544, 448) [0, 255, 0] 2,
         PutText ''banana: 0.98'' (253, 322) FONT_HERSHEY_SIMPLEX 1 [0, 255, 0] 2]] \<and>
   image_var (snd (render_detections sketch (\<lambda>c. ''0.98'') (1 / 2) kitchen)) = 0 \<and>
   image_copy (snd (render_detections sketch (\<lambda>c. ''0.98'') (1 / 2) kitchen)) = 1"
proof -
  have v: "image_var kitchen < length (memory kitchen)"
    by (simp add: kitchen_def blank_def)
  have m: "memory (snd (render_detections sketch (\<lambda>c. ''0.98'') (1 / 2) kitchen))
     = [[],
        [Rectangle (251, 292) (544, 448) [0, 255, 0] 2,
         PutText ''banana: 0.98'' (253, 322) FONT_HERSHEY_SIMPLEX 1 [0, 255, 0] 2]]"
    by (simp add: render_detections_def detection_step_def raising_def getitem_def py_int_def
          draw_def Let_def sketch_def kitchen_def blank_def coco_names_def nth_append)
  from input_image_untouched [OF v, of sketch "\<lambda>c. ''0.98''" "1 / 2"] v m
  show ?thesis by (simp add: kitchen_def blank_def)
qed

section \<open>Raising the threshold\<close>

text \<open>
  Claim C3 says that, for every detection list and registry, raising the threshold never
  increases the number of boxes drawn. It fails when a row that passes the lower
  threshold has a category outside the registry: the lookup raises \<open>IndexError\<close> and
  ends the loop before any later row is drawn, while at a higher threshold that row is
  skipped and the later rows are drawn. In \<open>kitchen\<close>, with a first row of category 99
  and confidence 0.6 and a second row of category 53 and confidence 0.9, the
  threshold 0.5 draws no box and the threshold 0.7 draws one.
\<close>

theorem boxes_monotone_counterexample:
  "(1 / 2 :: real) \<le> 7 / 10 \<and>
   fst (render_detections sketch (\<lambda>c. ''0.90'') (1 / 2)
          (kitchen\<lparr>output_slice := [[0, 99, 6 / 10, 1 / 4, 1 / 4, 3 / 4, 3 / 4],
                                     [0, 53, 9 / 10, 1 / 4, 1 / 4, 3 / 4, 3 / 4]]\<rparr>))
     = Some IndexError \<and>
   boxes_drawn (snd (render_detections sketch (\<lambda>c. ''0.90'') (1 / 2)
          (kitchen\<lparr>output_slice := [[0, 99, 6 / 10, 1 / 4, 1 / 4, 3 / 4, 3 / 4],
                                     [0, 53, 9 / 10, 1 / 4, 1 / 4, 3 / 4, 3 / 4]]\<rparr>)))
     = 0 \<and>
   boxes_drawn (snd (render_detections sketch (\<lambda>c. ''0.90'') (7 / 10)
          (kitchen\<lparr>output_slice := [[0, 99, 6 / 10, 1 / 4, 1 / 4, 3 / 4, 3 / 4],
                                     [0, 53, 9 / 10, 1 / 4, 1 / 4, 3 / 4, 3 / 4]]\<rparr>)))
     = 1 \<and>
   \<not> boxes_drawn (snd (render_detections sketch (\<lambda>c. ''0.90'') (7 / 10)
          (kitchen\<lparr>output_slice := [[0, 99, 6 / 10, 1 / 4, 1 / 4, 3 / 4, 3 / 4],
                                     [0, 53, 9 / 10, 1 / 4, 1 / 4, 3 / 4, 3 / 4]]\<rparr>)))
      \<le> boxes_drawn (snd (render_detections sketch (\<lambda>c. ''0.90'') (1 / 2)
          (kitchen\<lparr>output_slice := [[0, 99, 6 / 10, 1 / 4, 1 / 4, 3 / 4, 3 / 4],
                                     [0, 53, 9 / 10, 1 / 4, 1 / 4, 3 / 4, 3 / 4]]\<rparr>)))"
  by (simp add: render_detections_def detection_step_def raising_def getitem_def py_int_def
        draw_def Let_def boxes_drawn_def kitchen_def blank_def coco_names_def nth_append)

text \<open>
  Claim C3, amended: for thresholds \<open>t1 \<le> t2\<close>, if the rendering at \<open>t1\<close> ends without
  an exception, then so does the rendering at \<open>t2\<close>, and it draws no more boxes than
  the rendering at \<open>t1\<close>.
\<close>

theorem boxes_monotone_in_threshold:
  assumes "t1 \<le> t2" and "fst (render_detections cv2 fmt t1 s) = None"
  shows "fst (render_detections cv2 fmt t2 s) = None
       \<and> boxes_drawn (snd (render_detections cv2 fmt t2 s))
           \<le> boxes_drawn (snd (render_detections cv2 fmt t1 s))"
proof -
  from assms(2)
  have "fst (loop_calls fmt t1 (class_names s) (COLORS s) (image_width s) (image_height s)
               (output_slice s)) = None"
    by (simp add: render_detections_calls)
  from loop_calls_raise_threshold [OF this assms(1), of "length (memory s)"]
  show ?thesis
    by (simp add: render_detections_calls boxes_drawn_def)
qed

theorem boxes_monotone_in_threshold_witness:
  "(1 / 2 :: real) \<le> 99 / 100 \<and>
   fst (render_detections sketch (\<lambda>c. ''0.98'') (1 / 2) kitchen) = None \<and>
   fst (render_detections sketch (\<lambda>c. ''0.98'') (99 / 100) kitchen) = None \<and>
   boxes_drawn (snd (render_detections sketch (\<lambda>c. ''0.98'') (1 / 2) kitchen)) = 1 \<and>
   boxes_drawn (snd (render_detections sketch (\<lambda>c. ''0.98'') (99 / 100) kitchen)) = 0 \<and>
   boxes_drawn (snd (render_detections sketch (\<lambda>c. ''0.98'') (99 / 100) kitchen))
     \<le> boxes_drawn (snd (render_detections sketch (\<lambda>c. ''0.98'') (1 / 2) kitchen))"
proof -
  have le: "(1 / 2 :: real) \<le> 99 / 100" by simp
  have ok: "fst (render_detections sketch (\<lambda>c. ''0.98'') (1 / 2) kitchen) = None"
    by (simp add: render_detections_def detection_step_def raising_def getitem_def py_int_def
          draw_def Let_def kitchen_def blank_def coco_names_def nth_append)
  have b1: "boxes_drawn (snd (render_detections sketch (\<lambda>c. ''0.98'') (1 / 2) kitchen)) = 1"
    by (simp add: render_detections_def detection_step_def raising_def getitem_def py_int_def
          draw_def Let_def boxes_drawn_def kitchen_def blank_def coco_names_def nth_append)
  have b2: "boxes_drawn (snd (render_detections sketch (\<lambda>c. ''0.98'') (99 / 100) kitchen)) = 0"
    by (simp add: render_detections_def detection_step_def raising_def getitem_def py_int_def
          draw_def Let_def boxes_drawn_def kitchen_def blank_def coco_names_def nth_append)
  from boxes_monotone_in_threshold [OF le ok] le ok b1 b2
  show ?thesis by simp
qed

section \<open>Determinism\<close>

text \<open>
  The rendering cell reads the registry, the image size, the rows of the output and the
  pixels of \<open>image\<close>, and nothing else: two notebooks that agree on these give the same
  exception, if any, and the same pixels in \<open>image_copy\<close>, whatever their random
  generators, their other arrays and their histories are.
\<close>

lemma render_detections_depends_on:
  assumes "class_names s1 = class_names s2" and "COLORS s1 = COLORS s2"
    and "image_width s1 = image_width s2" and "image_height s1 = image_height s2"
    and "output_slice s1 = output_slice s2"
    and "memory s1 ! image_var s1 = memory s2 ! image_var s2"
  shows "fst (render_detections cv2 fmt t s1) = fst (render_detections cv2 fmt t s2)
       \<and> memory (snd (render_detections cv2 fmt t s1))
            ! image_copy (snd (render_detections cv2 fmt t s1))
         = memory (snd (render_detections cv2 fmt t s2))
            ! image_copy (snd (render_detections cv2 fmt t s2))"
  using assms by (simp add: render_detections_calls)

lemma render_detections_keeps:
  "np_random (snd (render_detections cv2 fmt t s)) = np_random s"
  "class_names (snd (render_detections cv2 fmt t s)) = class_names s"
  "COLORS (snd (render_detections cv2 fmt t s)) = COLORS s"
  "image_var (snd (render_detections cv2 fmt t s)) = image_var s"
  "image_width (snd (render_detections cv2 fmt t s)) = image_width s"
  "image_height (snd (render_detections cv2 fmt t s)) = image_height s"
  "output_slice (snd (render_detections cv2 fmt t s)) = output_slice s"
  by (simp_all add: render_detections_calls)

text \<open>
  Claim C6: running the rendering cell twice on the same inputs gives the same output
  image. The second run starts from the state the first run left, in which the random
  generator may have been used in between (\<open>g\<close> is any generator); it ends with the
  same exception, if any, and its \<open>image_copy\<close> has the same pixels as the
  \<open>image_copy\<close> of the first run. The cell itself leaves the random generator as it
  found it.
\<close>

theorem render_twice_same_image:
  assumes "image_var s < length (memory s)"
  shows "fst (render_detections cv2 fmt t
                ((snd (render_detections cv2 fmt t s))\<lparr>np_random := g\<rparr>))
           = fst (render_detections cv2 fmt t s)
       \<and> memory (snd (render_detections cv2 fmt t
                         ((snd (render_detections cv2 fmt t s))\<lparr>np_random := g\<rparr>)))
            ! image_copy (snd (render_detections cv2 fmt t
                                 ((snd (render_detections cv2 fmt t s))\<lparr>np_random := g\<rparr>)))
           = memory (snd (render_detections cv2 fmt t s))
               ! image_copy (snd (render_detections cv2 fmt t s))
       \<and> np_random (snd (render_detections cv2 fmt t s)) = np_random s"
proof -
  let ?s1 = "snd (render_detections cv2 fmt t s)"
  have px: "memory ?s1 ! image_var s = memory s ! image_var s"
    using assms by (simp add: render_detections_calls nth_append)
  have "fst (render_detections cv2 fmt t (?s1\<lparr>np_random := g\<rparr>))
          = fst (render_detections cv2 fmt t s)
      \<and> memory (snd (render_detections cv2 fmt t (?s1\<lparr>np_random := g\<rparr>)))
           ! image_copy (snd (render_detections cv2 fmt t (?s1\<lparr>np_random := g\<rparr>)))
          = memory ?s1 ! image_copy ?s1"
    by (rule render_detections_depends_on) (simp_all add: render_detections_keeps px)
  then show ?thesis
    by (simp add: render_detections_keeps)
qed

theorem render_twice_same_image_witness:
  "image_var kitchen < length (memory kitchen) \<and>
   memory (snd (render_detections sketch (\<lambda>c. ''0.98'') (1 / 2) kitchen))
     = [[],
        [Rectangle (251, 292) (544, 448) [0, 255, 0] 2,
         PutText ''banana: 0.98'' (253, 322) FONT_HERSHEY_SIMPLEX 1 [0, 255, 0] 2]] \<and>
   image_copy (snd (render_detections sketch (\<lambda>c. ''0.98'') (1 / 2) kitchen)) = 1 \<and>
   memory (snd (render_detections sketch (\<lambda>c. ''0.98'') (1 / 2)
                  ((snd (render_detections sketch (\<lambda>c. ''0.98'') (1 / 2) kitchen))
                     \<lparr>np_random := \<lambda>k. 1 / 4\<rparr>)))
     ! image_copy (snd (render_detections sketch (\<lambda>c. ''0.98'') (1 / 2)
                  ((snd (render_detections sketch (\<lambda>c. ''0.98'') (1 / 2) kitchen))
                     \<lparr>np_random := \<lambda>k. 1 / 4\<rparr>)))
     = [Rectangle (251, 292) (544, 448) [0, 255, 0] 2,
        PutText ''banana: 0.98'' (253, 322) FONT_HERSHEY_SIMPLEX 1 [0, 255, 0] 2]"
proof -
  have v: "image_var kitchen < length (memory kitchen)"
    by (simp add: kitchen_def blank_def)
  have m: "memory (snd (render_detections sketch (\<lambda>c. ''0.98'') (1 / 2) kitchen))
     = [[],
        [Rectangle (251, 292) (544, 448) [0, 255, 0] 2,
         PutText ''banana: 0.98'' (253, 322) FONT_HERSHEY_SIMPLEX 1 [0, 255, 0] 2]]"
    by (simp add: render_detections_def detection_step_def raising_def getitem_def py_int_def
          draw_def Let_def sketch_def kitchen_def blank_def coco_names_def nth_append)
  have c: "image_copy (snd (render_detections sketch (\<lambda>c. ''0.98'') (1 / 2) kitchen)) = 1"
    by (simp add: render_detections_def detection_step_def raising_def getitem_def py_int_def
          draw_def Let_def sketch_def kitchen_def blank_def coco_names_def nth_append)
  from render_twice_same_image [OF v, of sketch "\<lambda>c. ''0.98''" "1 / 2" "\<lambda>k. 1 / 4"] v m c
  show ?thesis by simp
qed

section \<open>Boxes, names and colours\<close>

lemma detection_step_drawn:
  assumes "detection_step cv2 fmt t d s = Inr s'" and "2 < length d" and "t < d ! 2"
  shows "6 < length d \<and>
     (\<exists>name color. getitem (class_names s) (py_int (d ! 1) - 1) = Inr name \<and>
        getitem (COLORS s) (py_int (d ! 1)) = Inr color \<and>
        cv2_calls s' = cv2_calls s @
          [(image_copy s,
            Rectangle (py_int (d ! 3 * real_of_int (image_width s)),
                       py_int (d ! 4 * real_of_int (image_height s)))
                      (py_int (d ! 5 * real_of_int (image_width s)),
                       py_int (d ! 6 * real_of_int (image_height s))) color 2),
           (image_copy s,
            PutText (name @ '': '' @ fmt (d ! 2))
                    (py_int (d ! 3 * real_of_int (image_width s) + 2),
                     py_int (d ! 4 * real_of_int (image_height s) + 30))
                    FONT_HERSHEY_SIMPLEX 1 color 2)])"
proof -
  from assms(1) obtain cs where cs:
      "step_calls fmt t (class_names s) (COLORS s) (image_width s) (image_height s) d = Inr cs"
    and s': "s' = drawn_on cv2 (image_copy s) cs s"
    by (auto simp add: detection_step_calls split: sum.splits)
  from step_calls_Inr [OF cs] assms(3) show ?thesis
    by (auto simp add: s' drawn_on_def)
qed

lemma detection_step_passes:
  assumes "6 < length d" and "t < d ! 2"
    and "getitem (class_names s) (py_int (d ! 1) - 1) = Inr name"
    and "getitem (COLORS s) (py_int (d ! 1)) = Inr color"
  shows "\<exists>s'. detection_step cv2 fmt t d s = Inr s' \<and>
     cv2_calls s' = cv2_calls s @
          [(image_copy s,
            Rectangle (py_int (d ! 3 * real_of_int (image_width s)),
                       py_int (d ! 4 * real_of_int (image_height s)))
                      (py_int (d ! 5 * real_of_int (image_width s)),
                       py_int (d ! 6 * real_of_int (image_height s))) color 2),
           (image_copy s,
            PutText (name @ '': '' @ fmt (d ! 2))
                    (py_int (d ! 3 * real_of_int (image_width s) + 2),
                     py_int (d ! 4 * real_of_int (image_height s) + 30))
                    FONT_HERSHEY_SIMPLEX 1 color 2)]"
  by (simp add: detection_step_calls step_calls_pass [OF assms] drawn_on_def)

text \<open>
  Claim C5: for a row that passes the threshold and is drawn, the rectangle goes from
  \<open>(x_min_norm * W, y_min_norm * H)\<close> to \<open>(x_max_norm * W, y_max_norm * H)\<close>, each
  coordinate truncated by \<open>int\<close>, where \<open>W\<close> and \<open>H\<close> are the width and the height of
  the image; with \<open>W = 640\<close>, \<open>H = 480\<close> and the box \<open>[0.25, 0.25, 0.75, 0.75]\<close> it goes
  from \<open>(160, 120)\<close> to \<open>(480, 360)\<close>.
\<close>

theorem box_corners_scaled:
  assumes "detection_step cv2 fmt t d s = Inr s'" and "2 < length d" and "t < d ! 2"
  shows "(\<exists>color label.
            cv2_calls s' = cv2_calls s @
              [(image_copy s,
                Rectangle (py_int (d ! 3 * real_of_int (image_width s)),
                           py_int (d ! 4 * real_of_int (image_height s)))
                          (py_int (d ! 5 * real_of_int (image_width s)),
                           py_int (d ! 6 * real_of_int (image_height s))) color 2),
               (image_copy s, label)])
       \<and> (image_width s = 640 \<and> image_height s = 480 \<and>
            drop 3 d = [25 / 100, 25 / 100, 75 / 100, 75 / 100] \<longrightarrow>
            (\<exists>color label.
               cv2_calls s' = cv2_calls s @
                 [(image_copy s, Rectangle (160, 120) (480, 360) color 2),
                  (image_copy s, label)]))"
proof (intro conjI impI)
  from detection_step_drawn [OF assms]
  show first: "\<exists>color label.
            cv2_calls s' = cv2_calls s @
              [(image_copy s,
                Rectangle (py_int (d ! 3 * real_of_int (image_width s)),
                           py_int (d ! 4 * real_of_int (image_height s)))
                          (py_int (d ! 5 * real_of_int (image_width s)),
                           py_int (d ! 6 * real_of_int (image_height s))) color 2),
               (image_copy s, label)]"
    by blast
  assume ex: "image_width s = 640 \<and> image_height s = 480 \<and>
              drop 3 d = [25 / 100, 25 / 100, 75 / 100, 75 / 100]"
  from detection_step_drawn [OF assms] have six: "6 < length d" by simp
  have nth: "d ! (3 + k) = drop 3 d ! k" for k
    using six by simp
  have "d ! 3 = 25 / 100" "d ! 4 = 25 / 100" "d ! 5 = 75 / 100" "d ! 6 = 75 / 100"
    using nth [of 0] nth [of 1] nth [of 2] nth [of 3] ex by simp_all
  with first ex
  show "\<exists>color label.
               cv2_calls s' = cv2_calls s @
                 [(image_copy s, Rectangle (160, 120) (480, 360) color 2),
                  (image_copy s, label)]"
    by (simp add: py_int_def)
qed

theorem box_corners_scaled_witness:
  "detection_step sketch (\<lambda>c. ''0.90'') (1 / 2)
      [0, 53, 9 / 10, 25 / 100, 25 / 100, 75 / 100, 75 / 100] kitchen_copy
     = Inr (kitchen_copy\<lparr>memory :=
              [[],
               [Rectangle (160, 120) (480, 360) [0, 255, 0] 2,
                PutText ''apple: 0.90'' (162, 150) FONT_HERSHEY_SIMPLEX 1 [0, 255, 0] 2]],
            cv2_calls :=
              [(1, Rectangle (160, 120) (480, 360) [0, 255, 0] 2),
               (1, PutText ''apple: 0.90'' (162, 150) FONT_HERSHEY_SIMPLEX 1 [0, 255, 0] 2)]\<rparr>) \<and>
   2 < length [0, 53, 9 / 10, 25 / 100, 25 / 100, 75 / 100, 75 / 100 :: real] \<and>
   (1 / 2 :: real) < [0, 53, 9 / 10, 25 / 100, 25 / 100, 75 / 100, 75 / 100] ! 2 \<and>
   image_width kitchen_copy = 640 \<and> image_height kitchen_copy = 480 \<and>
   drop 3 [0, 53, 9 / 10, 25 / 100, 25 / 100, 75 / 100, 75 / 100 :: real]
     = [25 / 100, 25 / 100, 75 / 100, 75 / 100] \<and>
   (\<exists>color label.
      [(1, Rectangle (160, 120) (480, 360) [0, 255, 0] 2),
       (1, PutText ''apple: 0.90'' (162, 150) FONT_HERSHEY_SIMPLEX 1 [0, 255, 0] 2)]
      = [(1, Rectangle (160, 120) (480, 360) color 2), (1, label)])"
proof -
  have step: "detection_step sketch (\<lambda>c. ''0.90'') (1 / 2)
      [0, 53, 9 / 10, 25 / 100, 25 / 100, 75 / 100, 75 / 100] kitchen_copy
     = Inr (kitchen_copy\<lparr>memory :=
              [[],
               [Rectangle (160, 120) (480, 360) [0, 255, 0] 2,
                PutText ''apple: 0.90'' (162, 150) FONT_HERSHEY_SIMPLEX 1 [0, 255, 0] 2]],
            cv2_calls :=
              [(1, Rectangle (160, 120) (480, 360) [0, 255, 0] 2),
               (1, PutText ''apple: 0.90'' (162, 150) FONT_HERSHEY_SIMPLEX 1 [0, 255, 0] 2)]\<rparr>)"
    by (simp add: detection_step_def raising_def getitem_def py_int_def
          draw_def Let_def sketch_def kitchen_copy_def kitchen_def blank_def coco_names_def nth_append)
  have len: "2 < length [0, 53, 9 / 10, 25 / 100, 25 / 100, 75 / 100, 75 / 100 :: real]"
    by simp
  have above: "(1 / 2 :: real) < [0, 53, 9 / 10, 25 / 100, 25 / 100, 75 / 100, 75 / 100] ! 2"
    by simp
  from box_corners_scaled [OF step len above] step len above
  show ?thesis by (simp add: kitchen_copy_def kitchen_def blank_def)
qed

text \<open>
  Claim C2 says that a detection with category 52 is labelled with line 52 of the
  registry. It is labelled with line 51: in \<open>kitchen\<close>, where line 52 is
  \<open>apple\<close> and line 51 is \<open>banana\<close>, the row of category 52 is labelled
  \<open>banana: 0.98\<close>.
\<close>

theorem apple_label_counterexample:
  "class_names kitchen ! 52 = ''apple'' \<and>
   output_slice kitchen = [[0, 52, 0.9821959, 0.3924626, 0.60919476, 0.85021377, 0.9348804]] \<and>
   render_detections sketch (\<lambda>c. ''0.98'') (1 / 2) kitchen
     = (None,
        kitchen\<lparr>memory :=
            [[],
             [Rectangle (251, 292) (544, 448) [0, 255, 0] 2,
              PutText ''banana: 0.98'' (253, 322) FONT_HERSHEY_SIMPLEX 1 [0, 255, 0] 2]],
          image_copy := 1,
          cv2_calls :=
            [(1, Rectangle (251, 292) (544, 448) [0, 255, 0] 2),
             (1, PutText ''banana: 0.98'' (253, 322) FONT_HERSHEY_SIMPLEX 1 [0, 255, 0] 2)]\<rparr>) \<and>
   \<not> sublist ''apple'' ''banana: 0.98''"
proof -
  have "\<not> sublist ''apple'' ''banana: 0.98''"
    by code_simp
  then show ?thesis
    by (simp add: render_detections_def detection_step_def raising_def getitem_def py_int_def
          draw_def Let_def sketch_def kitchen_def blank_def coco_names_def nth_append)
qed

text \<open>
  Claim C2, amended: for a row that passes the threshold and is drawn, the name is
  \<open>class_names[int(class_id) - 1]\<close> and the colour is \<open>COLORS[int(class_id)]\<close>, so for a
  category \<open>k\<close> from 1 to the length of the name list the name is the one at index
  \<open>k - 1\<close>, and for a category \<open>k\<close> below the length of the colour table the colour is
  the one at index \<open>k\<close>; the label starts with the name and both drawing calls use the
  colour. In particular, with a registry whose line 52 (counted from 0) is \<open>apple\<close>, a
  detection of category 53 has a label that contains \<open>apple\<close>.
\<close>

theorem name_and_color_lookup:
  assumes "detection_step cv2 fmt t d s = Inr s'" and "2 < length d" and "t < d ! 2"
  shows "\<exists>name color p q org.
           getitem (class_names s) (py_int (d ! 1) - 1) = Inr name
         \<and> getitem (COLORS s) (py_int (d ! 1)) = Inr color
         \<and> cv2_calls s' = cv2_calls s @
              [(image_copy s, Rectangle p q color 2),
               (image_copy s,
                PutText (name @ '': '' @ fmt (d ! 2)) org FONT_HERSHEY_SIMPLEX 1 color 2)]
         \<and> sublist name (name @ '': '' @ fmt (d ! 2))
         \<and> (\<forall>k. py_int (d ! 1) = int k \<and> 1 \<le> k \<and> k \<le> length (class_names s) \<longrightarrow>
                name = class_names s ! (k - 1))
         \<and> (\<forall>k. py_int (d ! 1) = int k \<and> k < length (COLORS s) \<longrightarrow> color = COLORS s ! k)
         \<and> (d ! 1 = 53 \<and> class_names s ! 52 = ''apple'' \<longrightarrow>
                name = ''apple'' \<and> sublist ''apple'' (name @ '': '' @ fmt (d ! 2)))"
proof -
  from detection_step_drawn [OF assms] obtain name color
    where n: "getitem (class_names s) (py_int (d ! 1) - 1) = Inr name"
      and c: "getitem (COLORS s) (py_int (d ! 1)) = Inr color"
      and calls: "cv2_calls s' = cv2_calls s @
          [(image_copy s,
            Rectangle (py_int (d ! 3 * real_of_int (image_width s)),
                       py_int (d ! 4 * real_of_int (image_height s)))
                      (py_int (d ! 5 * real_of_int (image_width s)),
                       py_int (d ! 6 * real_of_int (image_height s))) color 2),
           (image_copy s,
            PutText (name @ '': '' @ fmt (d ! 2))
                    (py_int (d ! 3 * real_of_int (image_width s) + 2),
                     py_int (d ! 4 * real_of_int (image_height s) + 30))
                    FONT_HERSHEY_SIMPLEX 1 color 2)]"
    by blast
  have sub: "sublist name (name @ '': '' @ fmt (d ! 2))"
    by (rule prefix_imp_sublist) simp
  have byname: "name = class_names s ! (k - 1)"
    if "py_int (d ! 1) = int k \<and> 1 \<le> k \<and> k \<le> length (class_names s)" for k
  proof -
    from that have "py_int (d ! 1) - 1 = int (k - 1)" and "k - 1 < length (class_names s)"
      by auto
    with n show ?thesis by (simp add: getitem_def)
  qed
  have bycolor: "color = COLORS s ! k"
    if "py_int (d ! 1) = int k \<and> k < length (COLORS s)" for k
    using that c by (simp add: getitem_def)
  have apple: "name = ''apple'' \<and> sublist ''apple'' (name @ '': '' @ fmt (d ! 2))"
    if a: "d ! 1 = 53 \<and> class_names s ! 52 = ''apple''"
  proof -
    from a have "py_int (d ! 1) - 1 = 52" by (simp add: py_int_def)
    with n have "name = class_names s ! 52"
      by (simp add: getitem_def split: if_splits)
    with a sub show ?thesis by simp
  qed
  from n c calls sub byname bycolor apple show ?thesis by blast
qed

theorem name_and_color_lookup_witness:
  "detection_step sketch (\<lambda>c. ''0.90'') (1 / 2)
      [0, 53, 9 / 10, 25 / 100, 25 / 100, 75 / 100, 75 / 100] kitchen_copy
     = Inr (kitchen_copy\<lparr>memory :=
              [[],
               [Rectangle (160, 120) (480, 360) [0, 255, 0] 2,
                PutText ''apple: 0.90'' (162, 150) FONT_HERSHEY_SIMPLEX 1 [0, 255, 0] 2]],
            cv2_calls :=
              [(1, Rectangle (160, 120) (480, 360) [0, 255, 0] 2),
               (1, PutText ''apple: 0.90'' (162, 150) FONT_HERSHEY_SIMPLEX 1 [0, 255, 0] 2)]\<rparr>) \<and>
   2 < length [0, 53, 9 / 10, 25 / 100, 25 / 100, 75 / 100, 75 / 100 :: real] \<and>
   (1 / 2 :: real) < [0, 53, 9 / 10, 25 / 100, 25 / 100, 75 / 100, 75 / 100] ! 2 \<and>
   [0, 53, 9 / 10, 25 / 100, 25 / 100, 75 / 100, 75 / 100 :: real] ! 1 = 53 \<and>
   class_names kitchen_copy ! 52 = ''apple'' \<and>
   class_names kitchen_copy ! 51 = ''banana'' \<and>
   sublist ''apple'' ''apple: 0.90''"
proof -
  have step: "detection_step sketch (\<lambda>c. ''0.90'') (1 / 2)
      [0, 53, 9 / 10, 25 / 100, 25 / 100, 75 / 100, 75 / 100] kitchen_copy
     = Inr (kitchen_copy\<lparr>memory :=
              [[],
               [Rectangle (160, 120) (480, 360) [0, 255, 0] 2,
                PutText ''apple: 0.90'' (162, 150) FONT_HERSHEY_SIMPLEX 1 [0, 255, 0] 2]],
            cv2_calls :=
              [(1, Rectangle (160, 120) (480, 360) [0, 255, 0] 2),
               (1, PutText ''apple: 0.90'' (162, 150) FONT_HERSHEY_SIMPLEX 1 [0, 255, 0] 2)]\<rparr>)"
    by (simp add: detection_step_def raising_def getitem_def py_int_def
          draw_def Let_def sketch_def kitchen_copy_def kitchen_def blank_def coco_names_def nth_append)
  have len: "2 < length [0, 53, 9 / 10, 25 / 100, 25 / 100, 75 / 100, 75 / 100 :: real]"
    by simp
  have above: "(1 / 2 :: real) < [0, 53, 9 / 10, 25 / 100, 25 / 100, 75 / 100, 75 / 100] ! 2"
    by simp
  have names: "class_names kitchen_copy ! 52 = ''apple''" "class_names kitchen_copy ! 51 = ''banana''"
    by (simp_all add: kitchen_copy_def kitchen_def blank_def coco_names_def nth_append)
  from name_and_color_lookup [OF step len above] names
  have "sublist ''apple'' ''apple: 0.90''"
    by (simp add: kitchen_copy_def kitchen_def blank_def)
  with step len above names show ?thesis by simp
qed

lemma getitem_minus_one: "xs \<noteq> [] \<Longrightarrow> getitem xs (- 1) = Inr (last xs)"
proof -
  assume "xs \<noteq> []"
  then have pos: "0 < length xs" by simp
  then have "nat (int (length xs) + - 1) = length xs - 1" by linarith
  with \<open>xs \<noteq> []\<close> pos show ?thesis
    by (simp add: getitem_def last_conv_nth Suc_le_eq)
qed

text \<open>
  Claim C10: the name lookup has no bounds check. For a row with category 0 that
  passes the threshold, the index is \<open>-1\<close>, which is the last element of a list that is
  not empty and not an \<open>IndexError\<close>: the row is drawn, labelled with the last name of
  the registry, in the colour at index 0.
\<close>

theorem category_zero_last_name:
  assumes "6 < length d" and "t < d ! 2" and "d ! 1 = 0"
    and "class_names s \<noteq> []" and "COLORS s \<noteq> []"
  shows "py_int (d ! 1) - 1 = - 1
       \<and> getitem (class_names s) (py_int (d ! 1) - 1) = Inr (last (class_names s))
       \<and> (\<exists>s' p q org.
            detection_step cv2 fmt t d s = Inr s' \<and>
            cv2_calls s' = cv2_calls s @
              [(image_copy s, Rectangle p q (COLORS s ! 0) 2),
               (image_copy s,
                PutText (last (class_names s) @ '': '' @ fmt (d ! 2)) org
                        FONT_HERSHEY_SIMPLEX 1 (COLORS s ! 0) 2)])"
proof -
  from assms(3) have idx: "py_int (d ! 1) = 0"
    by (simp add: py_int_def)
  then have m: "py_int (d ! 1) - 1 = - 1"
    by simp
  from assms(4) have "getitem (class_names s) (- 1) = Inr (last (class_names s))"
    by (rule getitem_minus_one)
  with m have n: "getitem (class_names s) (py_int (d ! 1) - 1) = Inr (last (class_names s))"
    by metis
  from assms(5) have "getitem (COLORS s) 0 = Inr (COLORS s ! 0)"
    by (simp add: getitem_def)
  with idx have c: "getitem (COLORS s) (py_int (d ! 1)) = Inr (COLORS s ! 0)"
    by metis
  from detection_step_passes [OF assms(1) assms(2) n c, of cv2 fmt] m n
  show ?thesis by blast
qed

theorem category_zero_last_name_witness:
  "6 < length [0, 0, 9 / 10, 25 / 100, 25 / 100, 75 / 100, 75 / 100 :: real] \<and>
   (1 / 2 :: real) < [0, 0, 9 / 10, 25 / 100, 25 / 100, 75 / 100, 75 / 100] ! 2 \<and>
   [0, 0, 9 / 10, 25 / 100, 25 / 100, 75 / 100, 75 / 100 :: real] ! 1 = 0 \<and>
   class_names kitchen_copy \<noteq> [] \<and> COLORS kitchen_copy \<noteq> [] \<and>
   last (class_names kitchen_copy) = ''cake'' \<and>
   getitem (class_names kitchen_copy) (- 1) = Inr ''cake'' \<and>
   detection_step sketch (\<lambda>c. ''0.90'') (1 / 2)
      [0, 0, 9 / 10, 25 / 100, 25 / 100, 75 / 100, 75 / 100] kitchen_copy
     = Inr (kitchen_copy\<lparr>memory :=
              [[],
               [Rectangle (160, 120) (480, 360) [0, 255, 0] 2,
                PutText ''cake: 0.90'' (162, 150) FONT_HERSHEY_SIMPLEX 1 [0, 255, 0] 2]],
            cv2_calls :=
              [(1, Rectangle (160, 120) (480, 360) [0, 255, 0] 2),
               (1, PutText ''cake: 0.90'' (162, 150) FONT_HERSHEY_SIMPLEX 1 [0, 255, 0] 2)]\<rparr>)"
proof -
  have six: "6 < length [0, 0, 9 / 10, 25 / 100, 25 / 100, 75 / 100, 75 / 100 :: real]"
    by simp
  have above: "(1 / 2 :: real) < [0, 0, 9 / 10, 25 / 100, 25 / 100, 75 / 100, 75 / 100] ! 2"
    by simp
  have zero: "[0, 0, 9 / 10, 25 / 100, 25 / 100, 75 / 100, 75 / 100 :: real] ! 1 = 0"
    by simp
  have names: "class_names kitchen_copy \<noteq> []" and colors: "COLORS kitchen_copy \<noteq> []"
    by (simp_all add: kitchen_copy_def kitchen_def blank_def coco_names_def)
  have lst: "last (class_names kitchen_copy) = ''cake''"
    by (simp add: kitchen_copy_def kitchen_def blank_def coco_names_def)
  have step: "detection_step sketch (\<lambda>c. ''0.90'') (1 / 2)
      [0, 0, 9 / 10, 25 / 100, 25 / 100, 75 / 100, 75 / 100] kitchen_copy
     = Inr (kitchen_copy\<lparr>memory :=
              [[],
               [Rectangle (160, 120) (480, 360) [0, 255, 0] 2,
                PutText ''cake: 0.90'' (162, 150) FONT_HERSHEY_SIMPLEX 1 [0, 255, 0] 2]],
            cv2_calls :=
              [(1, Rectangle (160, 120) (480, 360) [0, 255, 0] 2),
               (1, PutText ''cake: 0.90'' (162, 150) FONT_HERSHEY_SIMPLEX 1 [0, 255, 0] 2)]\<rparr>)"
    by (simp add: detection_step_def raising_def getitem_def py_int_def
          draw_def Let_def sketch_def kitchen_copy_def kitchen_def blank_def coco_names_def nth_append)
  from category_zero_last_name [OF six above zero names colors, of sketch "\<lambda>c. ''0.90''"]
  have "getitem (class_names kitchen_copy) (- 1) = Inr ''cake''"
    by (simp add: lst py_int_def)
  with six above zero names colors lst step show ?thesis by simp
qed

section \<open>The colour table\<close>

lemma uniform_shape:
  "length (fst (uniform low high (n, m) g)) = n"
  "\<forall>row\<in>set (fst (uniform low high (n, m) g)). length row = m"
  by (simp_all add: uniform_def)

lemma uniform_range:
  assumes "\<forall>k. 0 \<le> g k \<and> g k < 1" and "low \<le> high"
  shows "\<forall>row\<in>set (fst (uniform low high (n, m) g)). \<forall>x\<in>set row. low \<le> x \<and> x \<le> high"
proof -
  have "low \<le> low + (high - low) * g k \<and> low + (high - low) * g k \<le> high" for k
  proof
    from assms have "0 \<le> (high - low) * g k"
      by simp
    then show "low \<le> low + (high - low) * g k"
      by simp
    from assms have "(high - low) * g k \<le> (high - low) * 1"
      by (intro mult_left_mono) (simp_all add: less_imp_le)
    then show "low + (high - low) * g k \<le> high"
      by simp
  qed
  then show ?thesis
    by (auto simp add: uniform_def)
qed

text \<open>
  Claim C9: after the registry is loaded, the colour table has as many rows as there
  are names, every row has three channels, and every channel is between 0 and 255
  (given that the raw samples of the generator are in \<open>[0, 1)\<close>). The load takes three
  samples per name from the generator, and the rendering cell leaves the names, the
  colour table and the generator as they are.
\<close>

theorem colors_after_load:
  assumes "load_categories fs s = Inr s'" and "\<forall>k. 0 \<le> np_random s k \<and> np_random s k < 1"
  shows "length (COLORS s') = length (class_names s')
       \<and> (\<forall>color\<in>set (COLORS s'). length color = 3 \<and> (\<forall>x\<in>set color. 0 \<le> x \<and> x \<le> 255))
       \<and> np_random s' = (\<lambda>k. np_random s (length (class_names s') * 3 + k))
       \<and> COLORS (snd (render_detections cv2 fmt t s')) = COLORS s'
       \<and> class_names (snd (render_detections cv2 fmt t s')) = class_names s'
       \<and> np_random (snd (render_detections cv2 fmt t s')) = np_random s'"
proof -
  from assms(1) obtain content where
    s': "s' = s\<lparr>class_names := str_split (CHR 0x0A) content,
               COLORS := fst (uniform 0 255 (length (str_split (CHR 0x0A) content), 3) (np_random s)),
               np_random := snd (uniform 0 255 (length (str_split (CHR 0x0A) content), 3) (np_random s))\<rparr>"
    by (auto simp add: load_categories_def Let_def split: option.splits)
  have "(0::real) \<le> 255" by simp
  from uniform_range [OF assms(2) this] uniform_shape [of 0 255 _ 3 "np_random s"]
  show ?thesis
    by (simp add: s' render_detections_keeps) (simp add: uniform_def)
qed

theorem colors_after_load_witness:
  "(\<forall>k. 0 \<le> np_random blank k \<and> np_random blank k < 1) \<and>
   \<not> isl (load_categories (Map.empty(classes_path \<mapsto> ''person'' @ [CHR 0x0A] @ ''bicycle'')) blank) \<and>
   class_names (projr (load_categories
       (Map.empty(classes_path \<mapsto> ''person'' @ [CHR 0x0A] @ ''bicycle'')) blank))
     = [''person'', ''bicycle''] \<and>
   COLORS (projr (load_categories
       (Map.empty(classes_path \<mapsto> ''person'' @ [CHR 0x0A] @ ''bicycle'')) blank))
     = [[255 / 2, 255 / 2, 255 / 2], [255 / 2, 255 / 2, 255 / 2]] \<and>
   length (COLORS (projr (load_categories
       (Map.empty(classes_path \<mapsto> ''person'' @ [CHR 0x0A] @ ''bicycle'')) blank)))
     = length (class_names (projr (load_categories
       (Map.empty(classes_path \<mapsto> ''person'' @ [CHR 0x0A] @ ''bicycle'')) blank)))"
proof -
  let ?fs = "Map.empty(classes_path \<mapsto> ''person'' @ [CHR 0x0A] @ ''bicycle'')"
  have g: "\<forall>k. 0 \<le> np_random blank k \<and> np_random blank k < 1"
    by (simp add: blank_def)
  have ok: "\<not> isl (load_categories ?fs blank)"
    by (simp add: load_categories_def Let_def)
  then have l: "load_categories ?fs blank = Inr (projr (load_categories ?fs blank))"
    by (cases "load_categories ?fs blank") simp_all
  have n: "class_names (projr (load_categories ?fs blank)) = [''person'', ''bicycle'']"
    by (simp add: load_categories_def Let_def)
  have c: "COLORS (projr (load_categories ?fs blank))
             = [[255 / 2, 255 / 2, 255 / 2], [255 / 2, 255 / 2, 255 / 2]]"
    by (simp add: load_categories_def Let_def uniform_def blank_def eval_nat_numeral)
  from colors_after_load [OF l g, of sketch "\<lambda>c. ''0.98''" "1 / 2"] g ok n c
  show ?thesis by simp
qed

end
